theory Spec2Isabelle
  imports Main "HOL-Library.Sublist"
begin

section \<open>The environment configuration of the coffee shop front end\<close>

text \<open>
  The file \<^verbatim>\<open>frontend/src/environments/environment.ts\<close> consists of one statement,
  \<^verbatim>\<open>export const environment = { ... };\<close>, whose right-hand side is an object literal
  holding a boolean, a string and a nested object literal of four strings. The values a
  consumer can observe at run time are JavaScript values, so the literal is embedded as a
  value of the datatype below: an object is the list of its own properties in the order
  the literal writes them.
\<close>

subsection \<open>Values and property reads\<close>

datatype jsval =
    JUndefined
  | JNull
  | JBool bool
  | JStr string
  | JObj "(string \<times> jsval) list"

text \<open>
  What a read can end in instead of a value: \<open>TypeError\<close> is a property read on
  \<^verbatim>\<open>undefined\<close> or \<^verbatim>\<open>null\<close>, \<open>ReferenceError\<close> is a read of the \<^verbatim>\<open>const\<close> binding before
  its declaration has run. A property read on a boolean or a string is answered by the
  wrapper prototypes of the language, which are no part of this module; the model stops
  there with \<open>PrimitiveReceiver\<close> rather than inventing an answer.
\<close>

datatype error = TypeError | ReferenceError | PrimitiveReceiver

text \<open>
  \<^verbatim>\<open>v.k\<close>: an own property of an object is returned, a property the object does not have
  reads as \<^verbatim>\<open>undefined\<close>. An object has each property name once, as the literal of this
  module writes each name once, so the entry found is the only one with that name.
\<close>

definition get_prop :: "jsval \<Rightarrow> string \<Rightarrow> error + jsval" where
  "get_prop v k =
     (case v of
        JUndefined \<Rightarrow> Inl TypeError
      | JNull \<Rightarrow> Inl TypeError
      | JBool b \<Rightarrow> Inl PrimitiveReceiver
      | JStr s \<Rightarrow> Inl PrimitiveReceiver
      | JObj fs \<Rightarrow> (case map_of fs k of None \<Rightarrow> Inr JUndefined | Some w \<Rightarrow> Inr w))"

text \<open>\<^verbatim>\<open>v.k1.k2...\<close>: a chain of property reads, stopping at the first one that throws.\<close>

fun read_path :: "jsval \<Rightarrow> string list \<Rightarrow> error + jsval" where
  "read_path v [] = Inr v"
| "read_path v (k # ks) =
     (case get_prop v k of Inl e \<Rightarrow> Inl e | Inr w \<Rightarrow> read_path w ks)"

text \<open>The string found at a path, if the path ends in a string.\<close>

definition string_at :: "jsval \<Rightarrow> string list \<Rightarrow> string option" where
  "string_at v ks =
     (case read_path v ks of
        Inr (JStr s) \<Rightarrow> Some s
      | _ \<Rightarrow> None)"

subsection \<open>The exported object\<close>

text \<open>The object literal of \<^verbatim>\<open>environment.ts\<close>, lines 5 to 14.\<close>

definition environment :: jsval where
  "environment = JObj
     [(''production'', JBool False),
      (''apiServerUrl'', JStr ''http://127.0.0.1:5000''),
      (''auth0'', JObj
         [(''url'', JStr ''dev-6wikmw4d.us.auth0.com''),
          (''audience'', JStr ''coffee_shop''),
          (''clientId'', JStr ''I0sxOj09Gcl40n2FYKcZZuiN0HA9US1b''),
          (''callbackURL'', JStr ''http://localhost:8100'')])]"

subsection \<open>Run-time types\<close>

text \<open>
  The run-time type of a value: its kind for a primitive, and for an object the names of
  its own properties, in order, each with the type of its value.
\<close>

datatype jstype =
    TUndefined
  | TNull
  | TBoolean
  | TString
  | TObject "(string \<times> jstype) list"

primrec type_of :: "jsval \<Rightarrow> jstype" where
  "type_of JUndefined = TUndefined"
| "type_of JNull = TNull"
| "type_of (JBool b) = TBoolean"
| "type_of (JStr s) = TString"
| "type_of (JObj fs) = TObject (map (map_prod id type_of) fs)"

text \<open>
  The shape the specification declares for the configuration (its section 6), written
  from the specification's words, to be compared with the type of the object the source
  builds.
\<close>

definition EnvironmentConfig_shape :: jstype where
  "EnvironmentConfig_shape = TObject
     [(''production'', TBoolean),
      (''apiServerUrl'', TString),
      (''auth0'', TObject
         [(''url'', TString),
          (''audience'', TString),
          (''clientId'', TString),
          (''callbackURL'', TString)])]"

text \<open>A value that is neither \<^verbatim>\<open>undefined\<close> nor \<^verbatim>\<open>null\<close>.\<close>

definition is_present :: "jsval \<Rightarrow> bool" where
  "is_present v \<longleftrightarrow> v \<noteq> JUndefined \<and> v \<noteq> JNull"

text \<open>A path that reads without error as a value that is there.\<close>

definition present_at :: "jsval \<Rightarrow> string list \<Rightarrow> bool" where
  "present_at v ks = (case read_path v ks of Inl e \<Rightarrow> False | Inr w \<Rightarrow> is_present w)"

text \<open>A path that reads as a string of at least one character.\<close>

definition nonempty_string_at :: "jsval \<Rightarrow> string list \<Rightarrow> bool" where
  "nonempty_string_at v ks = (case string_at v ks of None \<Rightarrow> False | Some s \<Rightarrow> s \<noteq> [])"

text \<open>The six fields of the specification's data model (its section 3), as paths.\<close>

definition declared_fields :: "string list list" where
  "declared_fields =
     [[''production''],
      [''apiServerUrl''],
      [''auth0'', ''url''],
      [''auth0'', ''audience''],
      [''auth0'', ''clientId''],
      [''auth0'', ''callbackURL'']]"


subsection \<open>The module binding\<close>

text \<open>
  \<^verbatim>\<open>export const environment = ...\<close> declares a binding of the module. It holds nothing
  until the declaration has run; from then on it holds the object, and \<^verbatim>\<open>const\<close> admits
  no assignment to it. The module has no other statement, so its whole state is
  this binding.
\<close>

record module_state =
  environment_binding :: "jsval option"

definition before_evaluation :: module_state where
  "before_evaluation = \<lparr>environment_binding = None\<rparr>"

text \<open>Running the module body: the one declaration initialises the binding.\<close>

definition evaluate_module :: "module_state \<Rightarrow> module_state" where
  "evaluate_module st = st\<lparr>environment_binding := Some environment\<rparr>"

text \<open>
  A consumer's read of the imported name: the value of the binding, or a
  \<open>ReferenceError\<close> while the binding is not initialised. The state is returned as it
  was found.
\<close>

definition read_environment :: "module_state \<Rightarrow> (error + jsval) \<times> module_state" where
  "read_environment st =
     (case environment_binding st of
        None \<Rightarrow> (Inl ReferenceError, st)
      | Some v \<Rightarrow> (Inr v, st))"

text \<open>\<open>n\<close> reads one after the other: what each returned, and the state left behind.\<close>

fun reads :: "nat \<Rightarrow> module_state \<Rightarrow> (error + jsval) list \<times> module_state" where
  "reads 0 st = ([], st)"
| "reads (Suc n) st =
     (let (r, st') = read_environment st;
          (rs, st'') = reads n st'
      in (r # rs, st''))"

text \<open>
  The state every consumer finds: the module imports nothing, so it takes part in no
  import cycle and its body has run before any importer's code does.
\<close>

definition loaded :: module_state where
  "loaded = evaluate_module before_evaluation"

subsection \<open>The object in the heap\<close>

text \<open>
  The binding holds a reference, and every importer receives that same reference. What a
  consumer does with it is seen by every other consumer, so for questions of identity
  and of mutation the object is placed in a heap: a value is a primitive or the address
  of an object, and an object is the list of its own properties. Addresses are opaque
  names; nothing depends on the order in which they are handed out.
\<close>

datatype hval = HUndefined | HNull | HBool bool | HStr string | HRef nat

type_synonym hobject = "(string \<times> hval) list"

record process_state =
  heap :: "nat \<Rightarrow> hobject option"
  next_address :: nat
  environment_cell :: "hval option"

definition alloc :: "hobject \<Rightarrow> process_state \<Rightarrow> hval \<times> process_state" where
  "alloc ps st =
     (HRef (next_address st),
      st\<lparr>heap := (heap st)(next_address st \<mapsto> ps),
         next_address := Suc (next_address st)\<rparr>)"

text \<open>
  Evaluating a literal: a primitive is itself, an object literal evaluates its property
  values from left to right and yields the address of a new object holding them.
\<close>

fun instantiate :: "jsval \<Rightarrow> process_state \<Rightarrow> hval \<times> process_state"
  and instantiate_props ::
    "(string \<times> jsval) list \<Rightarrow> process_state \<Rightarrow> hobject \<times> process_state"
where
  "instantiate JUndefined st = (HUndefined, st)"
| "instantiate JNull st = (HNull, st)"
| "instantiate (JBool b) st = (HBool b, st)"
| "instantiate (JStr s) st = (HStr s, st)"
| "instantiate (JObj fs) st =
     (let (ps, st') = instantiate_props fs st in alloc ps st')"
| "instantiate_props [] st = ([], st)"
| "instantiate_props (f # fs) st =
     (let (w, st') = instantiate (snd f) st;
          (ps, st'') = instantiate_props fs st'
      in ((fst f, w) # ps, st''))"





subsection \<open>What consumers can do\<close>















section \<open>Field values\<close>

text \<open>
  Claim C1. Reading the field \<^verbatim>\<open>apiServerUrl\<close> of the exported configuration returns
  exactly the string \<^verbatim>\<open>http://127.0.0.1:5000\<close>.
\<close>

theorem apiServerUrl_value:
  "get_prop environment ''apiServerUrl'' = Inr (JStr ''http://127.0.0.1:5000'')"
  by (simp add: environment_def get_prop_def)

text \<open>
  Claim C4. Reading the field \<^verbatim>\<open>production\<close> of the exported configuration returns
  exactly the boolean \<^verbatim>\<open>false\<close>.
\<close>

theorem production_value:
  "get_prop environment ''production'' = Inr (JBool False)"
  by (simp add: environment_def get_prop_def)

text \<open>
  Claim C5. Reading \<^verbatim>\<open>auth0.audience\<close> of the exported configuration returns exactly
  the string \<^verbatim>\<open>coffee_shop\<close>.
\<close>

theorem auth0_audience_value:
  "read_path environment [''auth0'', ''audience''] = Inr (JStr ''coffee_shop'')"
  by (simp add: environment_def get_prop_def)

text \<open>
  Claim C9. The other three fields of \<^verbatim>\<open>auth0\<close> hold fixed literals: \<^verbatim>\<open>auth0.url\<close> is
  \<^verbatim>\<open>dev-6wikmw4d.us.auth0.com\<close>, \<^verbatim>\<open>auth0.clientId\<close> is
  \<^verbatim>\<open>I0sxOj09Gcl40n2FYKcZZuiN0HA9US1b\<close> and \<^verbatim>\<open>auth0.callbackURL\<close> is
  \<^verbatim>\<open>http://localhost:8100\<close>.
\<close>

theorem auth0_literal_values:
  "read_path environment [''auth0'', ''url''] = Inr (JStr ''dev-6wikmw4d.us.auth0.com'') \<and>
   read_path environment [''auth0'', ''clientId''] =
     Inr (JStr ''I0sxOj09Gcl40n2FYKcZZuiN0HA9US1b'') \<and>
   read_path environment [''auth0'', ''callbackURL''] = Inr (JStr ''http://localhost:8100'')"
  by (simp add: environment_def get_prop_def)

text \<open>
  Claim C10. \<^verbatim>\<open>auth0.url\<close> is a bare domain: a string that starts with neither
  \<^verbatim>\<open>http://\<close> nor \<^verbatim>\<open>https://\<close>. \<^verbatim>\<open>apiServerUrl\<close> and \<^verbatim>\<open>auth0.callbackURL\<close> are
  strings that start with \<^verbatim>\<open>http://\<close> and do not end in a slash.
\<close>

theorem url_forms:
  "(\<exists>d. string_at environment [''auth0'', ''url''] = Some d \<and>
        \<not> prefix ''http://'' d \<and> \<not> prefix ''https://'' d) \<and>
   (\<exists>a. string_at environment [''apiServerUrl''] = Some a \<and>
        prefix ''http://'' a \<and> \<not> suffix ''/'' a) \<and>
   (\<exists>c. string_at environment [''auth0'', ''callbackURL''] = Some c \<and>
        prefix ''http://'' c \<and> \<not> suffix ''/'' c)"
  by (simp add: string_at_def environment_def get_prop_def suffix_to_prefix)

section \<open>Shape and presence\<close>

text \<open>
  Claim C2. The exported configuration has exactly the declared shape: a boolean
  \<^verbatim>\<open>production\<close>, a string \<^verbatim>\<open>apiServerUrl\<close> and a nested object \<^verbatim>\<open>auth0\<close> with the
  strings \<^verbatim>\<open>url\<close>, \<^verbatim>\<open>audience\<close>, \<^verbatim>\<open>clientId\<close> and \<^verbatim>\<open>callbackURL\<close>, and no other
  property; each of the six fields reads as a value that is neither \<^verbatim>\<open>undefined\<close> nor
  \<^verbatim>\<open>null\<close>.
\<close>

theorem environment_has_declared_shape:
  "type_of environment = EnvironmentConfig_shape \<and>
   list_all (present_at environment) declared_fields"
  by (simp add: environment_def EnvironmentConfig_shape_def declared_fields_def
      present_at_def is_present_def get_prop_def)

text \<open>
  Claim C3. Each of the five string fields \<^verbatim>\<open>apiServerUrl\<close>, \<^verbatim>\<open>auth0.url\<close>,
  \<^verbatim>\<open>auth0.audience\<close>, \<^verbatim>\<open>auth0.clientId\<close> and \<^verbatim>\<open>auth0.callbackURL\<close> is present and is
  a string of at least one character.
\<close>

theorem string_fields_nonempty:
  "nonempty_string_at environment [''apiServerUrl''] \<and>
   nonempty_string_at environment [''auth0'', ''url''] \<and>
   nonempty_string_at environment [''auth0'', ''audience''] \<and>
   nonempty_string_at environment [''auth0'', ''clientId''] \<and>
   nonempty_string_at environment [''auth0'', ''callbackURL'']"
  by (simp add: nonempty_string_at_def string_at_def environment_def get_prop_def)

section \<open>Reading the binding\<close>

lemma reads_replicate: "reads n st = (replicate n (fst (read_environment st)), st)"
proof (induction n)
  case 0
  show ?case by simp
next
  case (Suc n)
  have same: "snd (read_environment st) = st"
    by (simp add: read_environment_def split: option.split)
  obtain r where r: "read_environment st = (r, st)"
    using same by (metis prod.collapse)
  show ?case
    by (simp add: r Suc.IH)
qed

lemma read_loaded: "read_environment loaded = (Inr environment, loaded)"
  by (simp add: read_environment_def loaded_def evaluate_module_def)

text \<open>
  Claim C8. Reading the configuration has no error condition: however many reads went
  before, a consumer's read returns the configuration object itself, never an error and
  never \<^verbatim>\<open>undefined\<close> or \<^verbatim>\<open>null\<close>, and every declared field of what it returns reads
  without error as a present value.
\<close>

theorem read_never_fails:
  "fst (read_environment (snd (reads n loaded))) = Inr environment \<and>
   is_present environment \<and>
   list_all (present_at environment) declared_fields"
  by (simp add: reads_replicate read_loaded environment_def is_present_def
      present_at_def declared_fields_def get_prop_def)

section \<open>Identity and mutation\<close>















end
